theory Spec2Isabelle
  imports Complex_Main
begin

section \<open>Strings\<close>

text \<open>
  Names are Python \<open>str\<close> values, modelled as HOL strings. \<open>str.lower\<close> is modelled on
  the ASCII letters \<open>A\<close> to \<open>Z\<close>; every other character is left as it is.
\<close>

definition lower_char :: "char \<Rightarrow> char" where
  "lower_char c =
     (if (65::nat) \<le> of_char c \<and> of_char c \<le> (90::nat)
      then char_of (of_char c + (32::nat)) else c)"

definition lower :: "string \<Rightarrow> string" where
  "lower s = map lower_char s"

definition startswith :: "string \<Rightarrow> string \<Rightarrow> bool" where
  "startswith s p = (take (length p) s = p)"

section \<open>Exceptions and the environment\<close>

text \<open>
  An exception is kept with its \<open>str(e)\<close>. \<open>RequestException\<close> stands for every
  subclass of \<open>requests.exceptions.RequestException\<close>, \<open>Exception\<close> for every other
  subclass of Python's \<open>Exception\<close>.
\<close>

datatype exn = RequestException string | Exception string

fun str_exn :: "exn \<Rightarrow> string" where
  "str_exn (RequestException m) = m"
| "str_exn (Exception m) = m"

text \<open>
  A \<open>datetime\<close> is a count of microseconds, the resolution of Python's \<open>datetime\<close>;
  the difference of two of them is a \<open>timedelta\<close>, again in microseconds.

  A Python \<open>float\<close> is represented by the rational number it denotes, and so is an
  \<open>int\<close> where the code mixes the two (the \<open>0\<close> of a failed probe's \<open>elapsed\<close>).
  The float arithmetic that rounds is a parameter of the environment: \<open>fdiv\<close> is
  \<open>/\<close>, \<open>fmul\<close> is \<open>*\<close> and \<open>fsum\<close> is the builtin \<open>sum\<close>. Nothing proved below
  depends on how the runtime rounds; the concrete environments compute exactly.

  The environment answers the calls the handler makes to the outside: the directory
  listing, the clock and the HTTP client. The clock and the HTTP client are indexed by
  the number of calls made to them so far, so successive calls may answer differently.
\<close>

type_synonym datetime = int

record env =
  listdir :: "exn + string list"
  isdir :: "string \<Rightarrow> bool"
  utcnow :: "nat \<Rightarrow> datetime"
  requests_get :: "nat \<Rightarrow> string \<Rightarrow> exn + int"
  fdiv :: "rat \<Rightarrow> rat \<Rightarrow> rat"
  fmul :: "rat \<Rightarrow> rat \<Rightarrow> rat"
  fsum :: "rat list \<Rightarrow> rat"

section \<open>Service discovery\<close>

text \<open>
  \<open>get_function_list\<close>: the \<open>for\<close> loop over \<open>os.listdir(function_dir)\<close>, appending the
  lower-cased name of every entry that passes the test. \<open>listdir\<close> may raise.
\<close>

fun get_function_list_loop :: "env \<Rightarrow> string list \<Rightarrow> string list \<Rightarrow> string list" where
  "get_function_list_loop e [] functions = functions"
| "get_function_list_loop e (item # items) functions =
     get_function_list_loop e items
       (if isdir e item
           \<and> \<not> startswith item ''__''
           \<and> \<not> startswith item ''.''
           \<and> item \<noteq> ''tests''
           \<and> lower item \<noteq> ''getsystemstatus''
        then functions @ [lower item] else functions)"

definition get_function_list :: "env \<Rightarrow> exn + string list" where
  "get_function_list e =
     (case listdir e of
        Inl ex \<Rightarrow> Inl ex
      | Inr items \<Rightarrow> Inr (get_function_list_loop e items []))"

section \<open>Number formatting\<close>

text \<open>
  \<open>str(n)\<close> for a natural number, and the format specifications \<open>.0f\<close> and \<open>.1f\<close>
  of Python's f-strings: \<open>format_f p x\<close> is \<open>f"{x:.pf}"\<close>. Python prints the sign, then
  the magnitude rounded to \<open>p\<close> decimals, a tie going to the even neighbour.
\<close>

definition digit_char :: "nat \<Rightarrow> char" where
  "digit_char d = char_of (48 + d)"

fun str_nat :: "nat \<Rightarrow> string" where
  "str_nat n =
     (if n < 10 then [digit_char n] else str_nat (n div 10) @ [digit_char (n mod 10)])"

declare str_nat.simps [simp del]

definition round_half_even :: "rat \<Rightarrow> int" where
  "round_half_even x =
     (let f = \<lfloor>x\<rfloor>; d = x - of_int f
      in if d < 1 / 2 then f else if 1 / 2 < d then f + 1
         else if even f then f else f + 1)"

definition zfill :: "nat \<Rightarrow> string \<Rightarrow> string" where
  "zfill w s = replicate (w - length s) (CHR ''0'') @ s"

definition format_f :: "nat \<Rightarrow> rat \<Rightarrow> string" where
  "format_f p x =
     (let m = nat (round_half_even (\<bar>x\<bar> * 10 ^ p))
      in (if x < 0 then ''-'' else []) @ str_nat (m div 10 ^ p) @
         (if p = 0 then [] else ''.'' @ zfill p (str_nat (m mod 10 ^ p))))"

text \<open>\<open>str.isdigit\<close> on one ASCII character.\<close>

definition isdigit :: "char \<Rightarrow> bool" where
  "isdigit c = (c \<in> set ''0123456789'')"

section \<open>Probe execution\<close>

record probe_result =
  name :: string
  status :: string
  response_time :: string
  status_code :: int
  elapsed :: rat
  error :: "string option"

definition base_url :: string where
  "base_url = ''https://seeker-functions.azurewebsites.net/api''"

text \<open>\<open>timedelta.total_seconds()\<close>: the microseconds divided by \<open>10 ** 6\<close>, as a float.\<close>

definition total_seconds :: "env \<Rightarrow> int \<Rightarrow> rat" where
  "total_seconds e td = fdiv e (of_int td) 1000000"

text \<open>
  \<open>check_function\<close> at clock/client call count \<open>t\<close>; it returns the count afterwards.
  A \<open>RequestException\<close> is caught; any other exception leaves the function.
\<close>

definition check_function :: "env \<Rightarrow> string \<Rightarrow> nat \<Rightarrow> (exn + probe_result) \<times> nat" where
  "check_function e func_name t =
     (let start_time = utcnow e t
      in case requests_get e (t + 1) (base_url @ ''/'' @ func_name) of
           Inr response_status_code \<Rightarrow>
             (let elapsed = fmul e (total_seconds e (utcnow e (t + 2) - start_time)) 1000
              in (Inr \<lparr> name = func_name,
                        status = (if response_status_code < 500 then ''running'' else ''error''),
                        response_time = format_f 0 elapsed @ ''ms'',
                        status_code = response_status_code,
                        elapsed = elapsed,
                        error = None \<rparr>, t + 3))
         | Inl (RequestException m) \<Rightarrow>
             (Inr \<lparr> name = func_name,
                    status = ''error'',
                    response_time = ''0ms'',
                    status_code = 500,
                    elapsed = 0,
                    error = Some m \<rparr>, t + 2)
         | Inl (Exception m) \<Rightarrow> (Inl (Exception m), t + 2))"

text \<open>The list comprehension over \<open>functions_to_check\<close>: one probe after the other.\<close>

fun check_functions :: "env \<Rightarrow> string list \<Rightarrow> nat \<Rightarrow> (exn + probe_result list) \<times> nat" where
  "check_functions e [] t = (Inr [], t)"
| "check_functions e (func_name # rest) t =
     (case check_function e func_name t of
        (Inl ex, t') \<Rightarrow> (Inl ex, t')
      | (Inr r, t') \<Rightarrow>
          (case check_functions e rest t' of
             (Inl ex, t'') \<Rightarrow> (Inl ex, t'')
           | (Inr rs, t'') \<Rightarrow> (Inr (r # rs), t'')))"

section \<open>Aggregation and the handler\<close>

datatype jvalue = JInt int | JStr string

record metric =
  metric_name :: string
  metric_value :: jvalue

text \<open>
  The report is the dictionary handed to \<open>json.dumps\<close>; a key that the dictionary
  does not have is \<open>None\<close>. \<open>last_checked\<close> holds the clock reading whose \<open>isoformat()\<close>
  the code stores; \<open>report_functions\<close> and \<open>report_error\<close> are the keys
  \<open>"functions"\<close> and \<open>"error"\<close>.
\<close>

record status_report =
  state :: string
  availability :: string
  last_checked :: datetime
  host_names :: "string list"
  report_functions :: "probe_result list option"
  metrics :: "metric list option"
  report_error :: "string option"

record http_request =
  req_method :: string
  req_headers :: "string \<Rightarrow> string option"

record http_response =
  http_status_code :: int
  mimetype :: "string option"
  body :: "status_report option"
  headers :: "string \<Rightarrow> string option"

text \<open>Python's \<open>/\<close>: it raises \<open>ZeroDivisionError\<close> on a zero divisor.\<close>

definition truediv :: "env \<Rightarrow> rat \<Rightarrow> rat \<Rightarrow> exn + rat" where
  "truediv e a b = (if b = 0 then Inl (Exception ''division by zero'') else Inr (fdiv e a b))"

definition functions_to_check :: "string list \<Rightarrow> string list" where
  "functions_to_check all_functions = filter (\<lambda>f. lower f \<noteq> ''callback'') all_functions"

definition healthy_functions :: "probe_result list \<Rightarrow> probe_result list" where
  "healthy_functions function_statuses = filter (\<lambda>f. status f = ''running'') function_statuses"

definition total_response_time :: "env \<Rightarrow> probe_result list \<Rightarrow> rat" where
  "total_response_time e function_statuses = fsum e (map elapsed function_statuses)"

definition avg_response_time :: "env \<Rightarrow> probe_result list \<Rightarrow> nat \<Rightarrow> exn + rat" where
  "avg_response_time e function_statuses num_checked_functions =
     (if num_checked_functions > 0
      then truediv e (total_response_time e function_statuses) (of_nat num_checked_functions)
      else Inr 0)"

definition health_percentage :: "env \<Rightarrow> probe_result list \<Rightarrow> nat \<Rightarrow> exn + rat" where
  "health_percentage e function_statuses num_checked_functions =
     (if num_checked_functions > 0
      then (case truediv e (of_nat (length (healthy_functions function_statuses)))
                   (of_nat num_checked_functions) of
              Inl ex \<Rightarrow> Inl ex
            | Inr q \<Rightarrow> Inr (fmul e q 100))
      else Inr 0)"

text \<open>
  The body of the \<open>try\<close> block of \<open>main\<close>: the report, or the exception that left the
  block, with the clock/client call count at that point. The locals
  \<open>functions_to_check\<close>, \<open>healthy_functions\<close>, \<open>total_response_time\<close>,
  \<open>avg_response_time\<close> and \<open>health_percentage\<close> are the definitions above.
\<close>

definition main_try :: "env \<Rightarrow> (exn + status_report) \<times> nat" where
  "main_try e =
     (case get_function_list e of
        Inl ex \<Rightarrow> (Inl ex, 0)
      | Inr all_functions \<Rightarrow>
          (case check_functions e (functions_to_check all_functions) 0 of
             (Inl ex, t) \<Rightarrow> (Inl ex, t)
           | (Inr function_statuses, t) \<Rightarrow>
               (let num_checked_functions = length (functions_to_check all_functions);
                    num_healthy = length (healthy_functions function_statuses)
                in case avg_response_time e function_statuses num_checked_functions of
                     Inl ex \<Rightarrow> (Inl ex, t)
                   | Inr avg \<Rightarrow>
                       (case health_percentage e function_statuses num_checked_functions of
                          Inl ex \<Rightarrow> (Inl ex, t)
                        | Inr pct \<Rightarrow>
                            (Inr \<lparr> state = (if num_healthy = num_checked_functions
                                             then ''running'' else ''degraded''),
                                    availability = (if num_healthy = num_checked_functions
                                                    then ''normal'' else ''limited''),
                                    last_checked = utcnow e t,
                                    host_names = [''seeker-functions.azurewebsites.net''],
                                    report_functions = Some function_statuses,
                                    metrics = Some
                                      [\<lparr> metric_name = ''Total Functions Checked'',
                                          metric_value = JInt (int num_checked_functions) \<rparr>,
                                       \<lparr> metric_name = ''Healthy Functions'',
                                          metric_value = JInt (int num_healthy) \<rparr>,
                                       \<lparr> metric_name = ''Average Response Time'',
                                          metric_value = JStr (format_f 0 avg @ ''ms'') \<rparr>,
                                       \<lparr> metric_name = ''Health Percentage'',
                                          metric_value = JStr (format_f 1 pct @ ''%'') \<rparr>],
                                    report_error = None \<rparr>, t + 1)))))"

text \<open>
  \<open>add_cors_headers\<close> and \<open>main\<close>. A response is \<open>func.HttpResponse\<close>: its body is
  the dictionary that \<open>json.dumps\<close> serialises, or \<open>None\<close> for the empty body; the
  serialisation itself and the call to \<open>logging.error\<close> are not modelled.
\<close>

definition allowed_origins :: "string list" where
  "allowed_origins = [''http://localhost:5173'', ''https://seeker.cityoftraitors.com'']"

definition add_cors_headers :: "http_request \<Rightarrow> http_response \<Rightarrow> http_response" where
  "add_cors_headers req response =
     (let origin = (case req_headers req ''Origin'' of Some v \<Rightarrow> v | None \<Rightarrow> []);
          response1 = (if origin \<in> set allowed_origins
                       then response \<lparr> headers := (headers response)
                              (''Access-Control-Allow-Origin'' \<mapsto> origin) \<rparr>
                       else response);
          response2 = response1 \<lparr> headers := (headers response1)
                              (''Access-Control-Allow-Methods'' \<mapsto> ''GET, OPTIONS'') \<rparr>
      in response2 \<lparr> headers := (headers response2)
                              (''Access-Control-Allow-Headers'' \<mapsto> ''Content-Type'') \<rparr>)"

definition main :: "env \<Rightarrow> http_request \<Rightarrow> http_response" where
  "main e req =
     (if req_method req = ''OPTIONS''
      then add_cors_headers req
             \<lparr> http_status_code = 200, mimetype = None, body = None, headers = Map.empty \<rparr>
      else
        (case main_try e of
           (Inr status_dict, t) \<Rightarrow>
             add_cors_headers req
               \<lparr> http_status_code = 200, mimetype = Some ''application/json'',
                 body = Some status_dict, headers = Map.empty \<rparr>
         | (Inl ex, t) \<Rightarrow>
             add_cors_headers req
               \<lparr> http_status_code = 200, mimetype = Some ''application/json'',
                 body = Some \<lparr> state = ''error'',
                               availability = ''limited'',
                               last_checked = utcnow e t,
                               host_names = [''seeker-functions.azurewebsites.net''],
                               report_functions = None,
                               metrics = None,
                               report_error = Some (str_exn ex) \<rparr>,
                 headers = Map.empty \<rparr>))"

section \<open>Concrete environments\<close>

text \<open>
  A deployment with nine directory entries, a clock that advances by 12345 microseconds
  per reading and exact arithmetic: \<open>login\<close> answers 503, the request to \<open>tests\<close> times
  out, every other service answers 200.
\<close>

definition example_env :: env where
  "example_env =
     \<lparr> listdir = Inr [''getUserTable'', ''callback'', ''tests'', ''Tests'', ''getSystemStatus'',
                      ''.git'', ''__pycache__'', ''host.json'', ''Login''],
       isdir = (\<lambda>item. item \<noteq> ''host.json''),
       utcnow = (\<lambda>k. 1000000 + 12345 * int k),
       requests_get = (\<lambda>k url.
          if url = ''https://seeker-functions.azurewebsites.net/api/login'' then Inr 503
          else if url = ''https://seeker-functions.azurewebsites.net/api/tests''
          then Inl (RequestException ''timed out'')
          else Inr 200),
       fdiv = (/), fmul = (*), fsum = sum_list \<rparr>"

text \<open>
  A deployment whose one service cannot be reached, the HTTP client raising a
  \<open>RequestException\<close> that carries no message.
\<close>

definition silent_failure_env :: env where
  "silent_failure_env =
     \<lparr> listdir = Inr [''login''],
       isdir = (\<lambda>item. True),
       utcnow = (\<lambda>k. int k),
       requests_get = (\<lambda>k url. Inl (RequestException [])),
       fdiv = (/), fmul = (*), fsum = sum_list \<rparr>"

text \<open>
  A deployment in which the HTTP client raises an exception that is not a
  \<open>RequestException\<close> on the second service.
\<close>

definition crash_env :: env where
  "crash_env =
     \<lparr> listdir = Inr [''login'', ''lookup''],
       isdir = (\<lambda>item. True),
       utcnow = (\<lambda>k. 500 * int k),
       requests_get = (\<lambda>k url.
          if url = ''https://seeker-functions.azurewebsites.net/api/lookup''
          then Inl (Exception ''boom'') else Inr 200),
       fdiv = (/), fmul = (*), fsum = sum_list \<rparr>"

text \<open>A deployment whose directory cannot be listed.\<close>

definition unreadable_env :: env where
  "unreadable_env =
     \<lparr> listdir = Inl (Exception ''No such file or directory''),
       isdir = (\<lambda>item. False),
       utcnow = (\<lambda>k. 500 * int k),
       requests_get = (\<lambda>k url. Inr 200),
       fdiv = (/), fmul = (*), fsum = sum_list \<rparr>"

text \<open>A deployment with no service to probe: only \<open>callback\<close> is discovered.\<close>

definition empty_env :: env where
  "empty_env =
     \<lparr> listdir = Inr [''getSystemStatus'', ''callback'', ''host.json''],
       isdir = (\<lambda>item. item \<noteq> ''host.json''),
       utcnow = (\<lambda>k. 500 * int k),
       requests_get = (\<lambda>k url. Inr 200),
       fdiv = (/), fmul = (*), fsum = sum_list \<rparr>"

text \<open>A \<open>GET\<close> request from an allowed origin.\<close>

definition example_req :: http_request where
  "example_req = \<lparr> req_method = ''GET'',
                   req_headers = Map.empty (''Origin'' \<mapsto> ''http://localhost:5173'') \<rparr>"

section \<open>Lemmas on strings and discovery\<close>











lemma example_get_function_list:
  "get_function_list example_env = Inr [''getusertable'', ''callback'', ''tests'', ''login'']"
  by code_simp

section \<open>Service discovery: the claim\<close>



section \<open>Lemmas on formatting and probes\<close>



lemma format_f_0:
  "format_f 0 x = (if x < 0 then ''-'' else []) @ str_nat (nat (round_half_even \<bar>x\<bar>))"
  by (simp add: format_f_def)


lemma check_function_response:
  "requests_get e (t + 1) (base_url @ ''/'' @ func_name) = Inr code \<Longrightarrow>
   check_function e func_name t =
     (Inr \<lparr> name = func_name,
            status = (if code < 500 then ''running'' else ''error''),
            response_time =
              format_f 0 (fmul e (total_seconds e (utcnow e (t + 2) - utcnow e t)) 1000) @ ''ms'',
            status_code = code,
            elapsed = fmul e (total_seconds e (utcnow e (t + 2) - utcnow e t)) 1000,
            error = None \<rparr>, t + 3)"
  by (simp add: check_function_def Let_def)

lemma check_function_request_exception:
  "requests_get e (t + 1) (base_url @ ''/'' @ func_name) = Inl (RequestException m) \<Longrightarrow>
   check_function e func_name t =
     (Inr \<lparr> name = func_name, status = ''error'', response_time = ''0ms'',
            status_code = 500, elapsed = 0, error = Some m \<rparr>, t + 2)"
  by (simp add: check_function_def)

lemma check_function_other_exception:
  "requests_get e (t + 1) (base_url @ ''/'' @ func_name) = Inl (Exception m) \<Longrightarrow>
   check_function e func_name t = (Inl (Exception m), t + 2)"
  by (simp add: check_function_def)

lemma check_function_cases:
  obtains (response) code where "requests_get e (t + 1) (base_url @ ''/'' @ func_name) = Inr code"
  | (caught) m where "requests_get e (t + 1) (base_url @ ''/'' @ func_name) = Inl (RequestException m)"
  | (raised) m where "requests_get e (t + 1) (base_url @ ''/'' @ func_name) = Inl (Exception m)"
proof (cases "requests_get e (t + 1) (base_url @ ''/'' @ func_name)")
  case (Inl ex)
  then show ?thesis using caught raised by (cases ex) auto
next
  case (Inr code)
  then show ?thesis using response by auto
qed

lemma check_function_name: "check_function e func_name t = (Inr r, t') \<Longrightarrow> name r = func_name"
  by (cases rule: check_function_cases [of e t func_name])
     (auto simp: check_function_response check_function_request_exception
        check_function_other_exception)

lemma check_functions_names:
  "check_functions e names t = (Inr rs, t') \<Longrightarrow> map name rs = names"
proof (induction names arbitrary: t rs t')
  case Nil
  then show ?case by simp
next
  case (Cons f fs)
  then show ?case
    by (auto split: prod.splits sum.splits dest: check_function_name)
qed


lemma example_check_function_response:
  "check_function example_env ''getusertable'' 0 =
     (Inr \<lparr> name = ''getusertable'', status = ''running'', response_time = ''25ms'',
            status_code = 200, elapsed = 2469 / 100, error = None \<rparr>, 3)"
  by code_simp

lemma digit_chars: "map digit_char [0, 1, 2, 3, 4, 5, 6, 7, 8, 9] = ''0123456789''"
  by code_simp

lemma digit_char_isdigit: "d < 10 \<Longrightarrow> isdigit (digit_char d)"
proof -
  assume "d < 10"
  then have "d \<in> set [0, 1, 2, 3, 4, 5, 6, 7, 8, 9]" by auto
  then have "digit_char d \<in> set (map digit_char [0, 1, 2, 3, 4, 5, 6, 7, 8, 9])"
    unfolding set_map by (rule imageI)
  then show ?thesis by (simp only: digit_chars isdigit_def)
qed

lemma str_nat_digits: "str_nat n \<noteq> [] \<and> list_all isdigit (str_nat n)"
proof (induction n rule: str_nat.induct)
  case (1 n)
  show ?case
  proof (cases "n < 10")
    case True
    then show ?thesis by (simp add: str_nat.simps [of n] digit_char_isdigit)
  next
    case False
    with 1 show ?thesis by (simp add: str_nat.simps [of n] digit_char_isdigit)
  qed
qed

lemma format_f_0_shape:
  "\<exists>sg ds. format_f 0 x = sg @ ds \<and> (sg = [] \<or> sg = ''-'') \<and> ds \<noteq> [] \<and> list_all isdigit ds"
proof -
  let ?ds = "str_nat (nat (round_half_even \<bar>x\<bar>))"
  have "format_f 0 x = (if x < 0 then ''-'' else []) @ ?ds" by (rule format_f_0)
  moreover have "?ds \<noteq> [] \<and> list_all isdigit ?ds" by (rule str_nat_digits)
  ultimately show ?thesis by (intro exI [of _ "if x < 0 then ''-'' else []"] exI [of _ ?ds]) simp
qed

lemma format_f_1:
  "format_f 1 x = (if x < 0 then ''-'' else []) @ str_nat (nat (round_half_even (\<bar>x\<bar> * 10)) div 10)
       @ ''.'' @ [digit_char (nat (round_half_even (\<bar>x\<bar> * 10)) mod 10)]"
  by (simp add: format_f_def Let_def zfill_def str_nat.simps [of "nat (round_half_even (\<bar>x\<bar> * 10)) mod 10"])

lemma format_f_1_shape:
  "\<exists>sg ds d. format_f 1 x = sg @ ds @ ''.'' @ [d] \<and> (sg = [] \<or> sg = ''-'')
      \<and> ds \<noteq> [] \<and> list_all isdigit ds \<and> isdigit d"
proof -
  let ?m = "nat (round_half_even (\<bar>x\<bar> * 10))"
  let ?ds = "str_nat (?m div 10)"
  have "format_f 1 x = (if x < 0 then ''-'' else []) @ ?ds @ ''.'' @ [digit_char (?m mod 10)]"
    by (rule format_f_1)
  moreover have "?ds \<noteq> [] \<and> list_all isdigit ?ds" by (rule str_nat_digits)
  moreover have "isdigit (digit_char (?m mod 10))" by (rule digit_char_isdigit) simp
  ultimately show ?thesis
    by (intro exI [of _ "if x < 0 then ''-'' else []"] exI [of _ ?ds]
          exI [of _ "digit_char (?m mod 10)"]) simp
qed

lemma example_check_function_tests:
  "check_function example_env ''tests'' 3 =
     (Inr \<lparr> name = ''tests'', status = ''error'', response_time = ''0ms'',
            status_code = 500, elapsed = 0, error = Some ''timed out'' \<rparr>, 5)"
  by code_simp

lemma example_check_function_login:
  "check_function example_env ''login'' 5 =
     (Inr \<lparr> name = ''login'', status = ''error'', response_time = ''25ms'',
            status_code = 503, elapsed = 2469 / 100, error = None \<rparr>, 8)"
  by code_simp

section \<open>Probe execution: the claims\<close>



text \<open>
  C4, as the code has it. When the HTTP client raises a \<open>RequestException\<close>, the
  probe returns a result (the exception does not leave \<open>check_function\<close>) with
  status \<open>error\<close>, response time \<open>0ms\<close>, status code 500, \<open>elapsed\<close> 0 and the
  exception's text as error string, whatever that text is.
\<close>

theorem check_function_request_failure:
  assumes "requests_get e (t + 1) (base_url @ ''/'' @ func_name) = Inl (RequestException m)"
  shows "check_function e func_name t =
     (Inr \<lparr> name = func_name, status = ''error'', response_time = ''0ms'',
            status_code = 500, elapsed = 0, error = Some m \<rparr>, t + 2)"
  using assms by (rule check_function_request_exception)

theorem check_function_request_failure_witness:
  "requests_get example_env 1 (base_url @ ''/'' @ ''tests'') = Inl (RequestException ''timed out'')
   \<and> check_function example_env ''tests'' 0 =
     (Inr \<lparr> name = ''tests'', status = ''error'', response_time = ''0ms'',
            status_code = 500, elapsed = 0, error = Some ''timed out'' \<rparr>, 2)"
proof -
  have h: "requests_get example_env (0 + 1) (base_url @ ''/'' @ ''tests'')
             = Inl (RequestException ''timed out'')"
    by (simp add: example_env_def base_url_def)
  from check_function_request_failure [OF h] h show ?thesis by simp
qed

text \<open>
  The error string is the exception's text and nothing else: for an exception without
  a message it is empty.
\<close>

theorem check_function_empty_error_counterexample:
  "requests_get silent_failure_env 1 (base_url @ ''/'' @ ''login'') = Inl (RequestException [])
   \<and> check_function silent_failure_env ''login'' 0 =
     (Inr \<lparr> name = ''login'', status = ''error'', response_time = ''0ms'',
            status_code = 500, elapsed = 0, error = Some [] \<rparr>, 2)"
  by (simp add: silent_failure_env_def check_function_def)

text \<open>
  C10. A probe result has an error string exactly when the HTTP client raised an
  exception. A response with status code 500 or above gives status \<open>error\<close>, the
  received status code and no error string.
\<close>

theorem check_function_error_field:
  assumes "check_function e func_name t = (Inr r, t')"
  shows "(error r \<noteq> None \<longleftrightarrow>
            (\<exists>ex. requests_get e (t + 1) (base_url @ ''/'' @ func_name) = Inl ex))
         \<and> (\<forall>code. requests_get e (t + 1) (base_url @ ''/'' @ func_name) = Inr code
                \<and> 500 \<le> code
              \<longrightarrow> status r = ''error'' \<and> status_code r = code \<and> error r = None)"
proof (cases rule: check_function_cases [of e t func_name])
  case (response code)
  from check_function_response [OF response] assms response show ?thesis by auto
next
  case (caught m)
  from check_function_request_exception [OF caught] assms caught show ?thesis by auto
next
  case (raised m)
  from check_function_other_exception [OF raised] assms show ?thesis by simp
qed

theorem check_function_error_field_witness:
  "check_function example_env ''login'' 5 =
     (Inr \<lparr> name = ''login'', status = ''error'', response_time = ''25ms'',
            status_code = 503, elapsed = 2469 / 100, error = None \<rparr>, 8)
   \<and> requests_get example_env 6 (base_url @ ''/'' @ ''login'') = Inr 503
   \<and> \<not> (\<exists>ex. requests_get example_env 6 (base_url @ ''/'' @ ''login'') = Inl ex)"
proof -
  have g: "requests_get example_env 6 (base_url @ ''/'' @ ''login'') = Inr 503"
    by (simp add: example_env_def base_url_def)
  from check_function_error_field [OF example_check_function_login]
  have "\<not> (\<exists>ex. requests_get example_env (5 + 1) (base_url @ ''/'' @ ''login'') = Inl ex)"
    by simp
  with g example_check_function_login show ?thesis by simp
qed

section \<open>Lemmas on aggregation and the handler\<close>

lemma avg_response_time_eq:
  "avg_response_time e fs n =
     Inr (if n = 0 then 0 else fdiv e (fsum e (map elapsed fs)) (of_nat n))"
  by (simp add: avg_response_time_def truediv_def total_response_time_def)

lemma health_percentage_eq:
  "health_percentage e fs n =
     Inr (if n = 0 then 0
          else fmul e (fdiv e (of_nat (length (filter (\<lambda>f. status f = ''running'') fs)))
                         (of_nat n)) 100)"
  by (simp add: health_percentage_def truediv_def healthy_functions_def)

lemma main_try_success:
  assumes "get_function_list e = Inr all_functions"
    and "check_functions e (functions_to_check all_functions) 0 = (Inr fs, t)"
  shows "main_try e =
     (Inr \<lparr> state = (if length (filter (\<lambda>f. status f = ''running'') fs)
                         = length (functions_to_check all_functions)
                      then ''running'' else ''degraded''),
            availability = (if length (filter (\<lambda>f. status f = ''running'') fs)
                         = length (functions_to_check all_functions)
                      then ''normal'' else ''limited''),
            last_checked = utcnow e t,
            host_names = [''seeker-functions.azurewebsites.net''],
            report_functions = Some fs,
            metrics = Some
              [\<lparr> metric_name = ''Total Functions Checked'',
                  metric_value = JInt (int (length (functions_to_check all_functions))) \<rparr>,
               \<lparr> metric_name = ''Healthy Functions'',
                  metric_value = JInt (int (length (filter (\<lambda>f. status f = ''running'') fs))) \<rparr>,
               \<lparr> metric_name = ''Average Response Time'',
                  metric_value = JStr (format_f 0
                    (if length (functions_to_check all_functions) = 0 then 0
                     else fdiv e (fsum e (map elapsed fs))
                            (of_nat (length (functions_to_check all_functions)))) @ ''ms'') \<rparr>,
               \<lparr> metric_name = ''Health Percentage'',
                  metric_value = JStr (format_f 1
                    (if length (functions_to_check all_functions) = 0 then 0
                     else fmul e (fdiv e (of_nat (length (filter (\<lambda>f. status f = ''running'') fs)))
                            (of_nat (length (functions_to_check all_functions)))) 100) @ ''%'') \<rparr>],
            report_error = None \<rparr>, t + 1)"
  unfolding main_try_def
  by (simp only: assms sum.case prod.case Let_def avg_response_time_eq health_percentage_eq
        healthy_functions_def)

lemma add_cors_headers_body: "body (add_cors_headers req r) = body r"
  by (simp add: add_cors_headers_def Let_def)

lemma add_cors_headers_status:
  "http_status_code (add_cors_headers req r) = http_status_code r"
  by (simp add: add_cors_headers_def Let_def)

lemma add_cors_headers_headers:
  "headers r = Map.empty \<Longrightarrow>
   headers (add_cors_headers req r) ''Access-Control-Allow-Origin'' =
     (if req_headers req ''Origin'' = Some ''http://localhost:5173''
         \<or> req_headers req ''Origin'' = Some ''https://seeker.cityoftraitors.com''
      then req_headers req ''Origin'' else None)
   \<and> headers (add_cors_headers req r) ''Access-Control-Allow-Methods'' = Some ''GET, OPTIONS''
   \<and> headers (add_cors_headers req r) ''Access-Control-Allow-Headers'' = Some ''Content-Type''"
  by (cases "req_headers req ''Origin''") (simp_all add: add_cors_headers_def Let_def allowed_origins_def)

lemma main_body_success:
  "req_method req \<noteq> ''OPTIONS'' \<Longrightarrow> main_try e = (Inr rep, t) \<Longrightarrow> body (main e req) = Some rep"
  by (simp add: main_def add_cors_headers_body)

lemma main_body_fault:
  "req_method req \<noteq> ''OPTIONS'' \<Longrightarrow> main_try e = (Inl ex, t) \<Longrightarrow>
   body (main e req) =
     Some \<lparr> state = ''error'', availability = ''limited'', last_checked = utcnow e t,
            host_names = [''seeker-functions.azurewebsites.net''],
            report_functions = None, metrics = None, report_error = Some (str_exn ex) \<rparr>"
  by (simp add: main_def add_cors_headers_body)

lemma main_status_code: "http_status_code (main e req) = 200"
  by (simp add: main_def add_cors_headers_status split: prod.split sum.split)

lemma main_add_cors_headers:
  "\<exists>r. main e req = add_cors_headers req r \<and> headers r = Map.empty"
proof -
  obtain res t where m: "main_try e = (res, t)" by (cases "main_try e")
  have "\<exists>st mt bd. main e req =
          add_cors_headers req
            \<lparr> http_status_code = st, mimetype = mt, body = bd, headers = Map.empty \<rparr>"
    by (cases res) (simp_all add: main_def m; blast)+
  then obtain st mt bd where "main e req =
          add_cors_headers req
            \<lparr> http_status_code = st, mimetype = mt, body = bd, headers = Map.empty \<rparr>"
    by blast
  moreover have "headers \<lparr> http_status_code = st, mimetype = mt, body = bd,
                           headers = Map.empty \<rparr> = Map.empty"
    by simp
  ultimately show ?thesis by blast
qed

lemma main_headers:
  "headers (main e req) ''Access-Control-Allow-Origin'' =
     (if req_headers req ''Origin'' = Some ''http://localhost:5173''
         \<or> req_headers req ''Origin'' = Some ''https://seeker.cityoftraitors.com''
      then req_headers req ''Origin'' else None)
   \<and> headers (main e req) ''Access-Control-Allow-Methods'' = Some ''GET, OPTIONS''
   \<and> headers (main e req) ''Access-Control-Allow-Headers'' = Some ''Content-Type''"
proof -
  obtain r where r: "main e req = add_cors_headers req r" and h: "headers r = Map.empty"
    using main_add_cors_headers by blast
  show ?thesis unfolding r by (rule add_cors_headers_headers [OF h])
qed

lemma main_try_discovery_fault: "get_function_list e = Inl ex \<Longrightarrow> main_try e = (Inl ex, 0)"
  by (simp add: main_try_def)

lemma main_try_probe_fault:
  "get_function_list e = Inr all_functions \<Longrightarrow>
   check_functions e (functions_to_check all_functions) 0 = (Inl ex, t) \<Longrightarrow>
   main_try e = (Inl ex, t)"
  by (simp add: main_try_def)




lemma example_req_method: "req_method example_req \<noteq> ''OPTIONS''"
  by (simp add: example_req_def)

lemma example_functions_to_check:
  "functions_to_check [''getusertable'', ''callback'', ''tests'', ''login'']
     = [''getusertable'', ''tests'', ''login'']"
  by code_simp

lemma example_check_functions:
  "check_functions example_env [''getusertable'', ''tests'', ''login''] 0 =
     (Inr [\<lparr> name = ''getusertable'', status = ''running'', response_time = ''25ms'',
              status_code = 200, elapsed = 2469 / 100, error = None \<rparr>,
           \<lparr> name = ''tests'', status = ''error'', response_time = ''0ms'',
              status_code = 500, elapsed = 0, error = Some ''timed out'' \<rparr>,
           \<lparr> name = ''login'', status = ''error'', response_time = ''25ms'',
              status_code = 503, elapsed = 2469 / 100, error = None \<rparr>], 8)"
  by (simp add: example_check_function_response example_check_function_tests
        example_check_function_login)

lemma example_check_functions_to_check:
  "check_functions example_env
     (functions_to_check [''getusertable'', ''callback'', ''tests'', ''login'']) 0 =
     (Inr [\<lparr> name = ''getusertable'', status = ''running'', response_time = ''25ms'',
              status_code = 200, elapsed = 2469 / 100, error = None \<rparr>,
           \<lparr> name = ''tests'', status = ''error'', response_time = ''0ms'',
              status_code = 500, elapsed = 0, error = Some ''timed out'' \<rparr>,
           \<lparr> name = ''login'', status = ''error'', response_time = ''25ms'',
              status_code = 503, elapsed = 2469 / 100, error = None \<rparr>], 8)"
  by (simp only: example_functions_to_check example_check_functions)

lemma example_formats: "format_f 0 (823 / 50) = ''16''" "format_f 1 (100 / 3) = ''33.3''"
  by code_simp+

lemma empty_get_function_list: "get_function_list empty_env = Inr [''callback'']"
  by code_simp

lemma empty_functions_to_check: "functions_to_check [''callback''] = []"
  by code_simp

lemma empty_check_functions:
  "check_functions empty_env (functions_to_check [''callback'']) 0 = (Inr [], 0)"
  by (simp add: empty_functions_to_check)

lemma crash_main_try: "main_try crash_env = (Inl (Exception ''boom''), 5)"
  by code_simp

lemma unreadable_main_try:
  "main_try unreadable_env = (Inl (Exception ''No such file or directory''), 0)"
  by code_simp

section \<open>Aggregation and the handler: the claims\<close>

text \<open>
  In the theorems of this section a request is on the success path when its method is
  not \<open>OPTIONS\<close>, discovery returns \<open>all_functions\<close> and the probes of
  \<open>functions_to_check all_functions\<close>, started at call count 0, return
  \<open>function_statuses\<close> without an exception leaving them.
\<close>

text \<open>
  C1. On the success path the handler returns a report that lists the probe results,
  one per probed service. Its state is \<open>running\<close> when the number of results with
  status \<open>running\<close> equals the number of probed services and \<open>degraded\<close> otherwise;
  its availability is \<open>normal\<close> under the same condition and \<open>limited\<close> otherwise.
  With no service to probe the state is \<open>running\<close> and the availability \<open>normal\<close>.
\<close>

theorem main_state_availability:
  assumes "req_method req \<noteq> ''OPTIONS''"
    and "get_function_list e = Inr all_functions"
    and "check_functions e (functions_to_check all_functions) 0 = (Inr function_statuses, t)"
  shows "\<exists>rep. body (main e req) = Some rep
           \<and> report_functions rep = Some function_statuses
           \<and> length function_statuses = length (functions_to_check all_functions)
           \<and> state rep =
               (if length (filter (\<lambda>f. status f = ''running'') function_statuses)
                    = length (functions_to_check all_functions)
                then ''running'' else ''degraded'')
           \<and> availability rep =
               (if length (filter (\<lambda>f. status f = ''running'') function_statuses)
                    = length (functions_to_check all_functions)
                then ''normal'' else ''limited'')
           \<and> (state rep = ''running'' \<longleftrightarrow>
                 length (filter (\<lambda>f. status f = ''running'') function_statuses)
                   = length (functions_to_check all_functions))
           \<and> (availability rep = ''normal'' \<longleftrightarrow>
                 length (filter (\<lambda>f. status f = ''running'') function_statuses)
                   = length (functions_to_check all_functions))
           \<and> (functions_to_check all_functions = [] \<longrightarrow>
                 state rep = ''running'' \<and> availability rep = ''normal'')"
proof -
  have len: "length function_statuses = length (functions_to_check all_functions)"
    using check_functions_names [OF assms(3)] by (metis length_map)
  have nil: "functions_to_check all_functions = [] \<Longrightarrow> function_statuses = []"
    using len by simp
  show ?thesis
    using main_body_success [OF assms(1) main_try_success [OF assms(2,3)]] len nil
    by auto
qed

theorem main_state_availability_witness:
  "req_method example_req \<noteq> ''OPTIONS''
   \<and> get_function_list example_env = Inr [''getusertable'', ''callback'', ''tests'', ''login'']
   \<and> (\<exists>rep. body (main example_env example_req) = Some rep
          \<and> state rep = ''degraded'' \<and> availability rep = ''limited'')
   \<and> get_function_list empty_env = Inr [''callback'']
   \<and> (\<exists>rep. body (main empty_env example_req) = Some rep
          \<and> state rep = ''running'' \<and> availability rep = ''normal'')"
proof -
  have a: "\<exists>rep. body (main example_env example_req) = Some rep
          \<and> state rep = ''degraded'' \<and> availability rep = ''limited''"
    using main_state_availability [OF example_req_method example_get_function_list
        example_check_functions_to_check]
    by (auto simp add: example_functions_to_check)
  have b: "\<exists>rep. body (main empty_env example_req) = Some rep
          \<and> state rep = ''running'' \<and> availability rep = ''normal''"
    using main_state_availability [OF example_req_method empty_get_function_list
        empty_check_functions]
    by (auto simp add: empty_functions_to_check)
  from a b example_req_method example_get_function_list empty_get_function_list
  show ?thesis by (simp only: simp_thms)
qed

text \<open>
  C2. On the success path the average response time is the runtime's \<open>sum\<close> of the
  \<open>elapsed\<close> fields divided by the number of probed services, and the health
  percentage is the number of \<open>running\<close> results divided by the number of probed
  services, times 100. Both are 0 when no service was probed, and neither computation
  raises: the division is never reached with a zero divisor. These two values are the
  ones the report prints in its last two metrics.
\<close>

theorem main_averages:
  assumes "req_method req \<noteq> ''OPTIONS''"
    and "get_function_list e = Inr all_functions"
    and "check_functions e (functions_to_check all_functions) 0 = (Inr function_statuses, t)"
  shows "\<exists>rep avg pct m1 m2.
           avg_response_time e function_statuses (length (functions_to_check all_functions))
             = Inr avg
           \<and> avg = (if length (functions_to_check all_functions) = 0 then 0
                    else fdiv e (fsum e (map elapsed function_statuses))
                           (of_nat (length (functions_to_check all_functions))))
           \<and> health_percentage e function_statuses (length (functions_to_check all_functions))
             = Inr pct
           \<and> pct = (if length (functions_to_check all_functions) = 0 then 0
                    else fmul e
                           (fdiv e (of_nat (length (filter (\<lambda>f. status f = ''running'')
                                                       function_statuses)))
                              (of_nat (length (functions_to_check all_functions)))) 100)
           \<and> body (main e req) = Some rep
           \<and> metrics rep = Some
                [m1, m2,
                 \<lparr> metric_name = ''Average Response Time'',
                    metric_value = JStr (format_f 0 avg @ ''ms'') \<rparr>,
                 \<lparr> metric_name = ''Health Percentage'',
                    metric_value = JStr (format_f 1 pct @ ''%'') \<rparr>]"
  using main_body_success [OF assms(1) main_try_success [OF assms(2,3)]]
  by (simp add: avg_response_time_eq health_percentage_eq)

theorem main_averages_witness:
  "req_method example_req \<noteq> ''OPTIONS''
   \<and> get_function_list example_env = Inr [''getusertable'', ''callback'', ''tests'', ''login'']
   \<and> (\<exists>rep m1 m2. body (main example_env example_req) = Some rep
          \<and> metrics rep = Some
                [m1, m2,
                 \<lparr> metric_name = ''Average Response Time'', metric_value = JStr ''16ms'' \<rparr>,
                 \<lparr> metric_name = ''Health Percentage'', metric_value = JStr ''33.3%'' \<rparr>])"
proof -
  have v: "fdiv example_env = (/)" "fmul example_env = (*)" "fsum example_env = sum_list"
    by (simp_all add: example_env_def)
  from main_averages [OF example_req_method example_get_function_list
        example_check_functions_to_check]
  obtain rep avg pct m1 m2 where
    a: "avg = (if length (functions_to_check [''getusertable'', ''callback'', ''tests'',
                    ''login'']) = 0 then 0
               else fdiv example_env (fsum example_env (map elapsed
                 [\<lparr> name = ''getusertable'', status = ''running'', response_time = ''25ms'',
                     status_code = 200, elapsed = 2469 / 100, error = None \<rparr>,
                  \<lparr> name = ''tests'', status = ''error'', response_time = ''0ms'',
                     status_code = 500, elapsed = 0, error = Some ''timed out'' \<rparr>,
                  \<lparr> name = ''login'', status = ''error'', response_time = ''25ms'',
                     status_code = 503, elapsed = 2469 / 100, error = None \<rparr>]))
                 (of_nat (length (functions_to_check [''getusertable'', ''callback'',
                    ''tests'', ''login'']))))"
    and p: "pct = (if length (functions_to_check [''getusertable'', ''callback'', ''tests'',
                    ''login'']) = 0 then 0
               else fmul example_env
                 (fdiv example_env (of_nat (length (filter (\<lambda>f. status f = ''running'')
                 [\<lparr> name = ''getusertable'', status = ''running'', response_time = ''25ms'',
                     status_code = 200, elapsed = 2469 / 100, error = None \<rparr>,
                  \<lparr> name = ''tests'', status = ''error'', response_time = ''0ms'',
                     status_code = 500, elapsed = 0, error = Some ''timed out'' \<rparr>,
                  \<lparr> name = ''login'', status = ''error'', response_time = ''25ms'',
                     status_code = 503, elapsed = 2469 / 100, error = None \<rparr>])))
                 (of_nat (length (functions_to_check [''getusertable'', ''callback'',
                    ''tests'', ''login''])))) 100)"
    and b: "body (main example_env example_req) = Some rep"
    and m: "metrics rep = Some
                [m1, m2,
                 \<lparr> metric_name = ''Average Response Time'',
                    metric_value = JStr (format_f 0 avg @ ''ms'') \<rparr>,
                 \<lparr> metric_name = ''Health Percentage'',
                    metric_value = JStr (format_f 1 pct @ ''%'') \<rparr>]"
    by blast
  have av: "avg = 823 / 50" using a by (simp add: example_functions_to_check v)
  have pc: "pct = 100 / 3" using p by (simp add: example_functions_to_check v)
  have "metrics rep = Some
                [m1, m2,
                 \<lparr> metric_name = ''Average Response Time'', metric_value = JStr ''16ms'' \<rparr>,
                 \<lparr> metric_name = ''Health Percentage'', metric_value = JStr ''33.3%'' \<rparr>]"
    using m unfolding av pc example_formats by simp
  with b have "\<exists>rep m1 m2. body (main example_env example_req) = Some rep
          \<and> metrics rep = Some
                [m1, m2,
                 \<lparr> metric_name = ''Average Response Time'', metric_value = JStr ''16ms'' \<rparr>,
                 \<lparr> metric_name = ''Health Percentage'', metric_value = JStr ''33.3%'' \<rparr>]"
    by blast
  with example_req_method example_get_function_list show ?thesis by (simp only: simp_thms)
qed



text \<open>
  C7. The transport status code is 200 for every environment and every request. When
  an exception leaves the \<open>try\<close> block of a request that is not \<open>OPTIONS\<close>, the
  body is a report with state \<open>error\<close>, availability \<open>limited\<close>, the clock reading
  taken by the handler as \<open>last_checked\<close>, the fixed host name, the exception's text
  as error, and neither \<open>functions\<close> nor \<open>metrics\<close>. An exception of discovery
  and an exception leaving a probe are such exceptions.
\<close>

theorem main_fault_report:
  "http_status_code (main e req) = 200
   \<and> (req_method req \<noteq> ''OPTIONS'' \<longrightarrow>
        (\<forall>ex t. main_try e = (Inl ex, t) \<longrightarrow>
           body (main e req) =
             Some \<lparr> state = ''error'', availability = ''limited'',
                    last_checked = utcnow e t,
                    host_names = [''seeker-functions.azurewebsites.net''],
                    report_functions = None, metrics = None,
                    report_error = Some (str_exn ex) \<rparr>))
   \<and> (\<forall>ex. get_function_list e = Inl ex \<longrightarrow> main_try e = (Inl ex, 0))
   \<and> (\<forall>all_functions ex t.
         get_function_list e = Inr all_functions
         \<and> check_functions e (functions_to_check all_functions) 0 = (Inl ex, t)
         \<longrightarrow> main_try e = (Inl ex, t))"
  using main_status_code main_body_fault main_try_discovery_fault main_try_probe_fault
  by blast

theorem main_fault_report_witness:
  "req_method example_req \<noteq> ''OPTIONS''
   \<and> main_try crash_env = (Inl (Exception ''boom''), 5)
   \<and> http_status_code (main crash_env example_req) = 200
   \<and> body (main crash_env example_req) =
       Some \<lparr> state = ''error'', availability = ''limited'', last_checked = 2500,
              host_names = [''seeker-functions.azurewebsites.net''],
              report_functions = None, metrics = None, report_error = Some ''boom'' \<rparr>
   \<and> main_try unreadable_env = (Inl (Exception ''No such file or directory''), 0)
   \<and> body (main unreadable_env example_req) =
       Some \<lparr> state = ''error'', availability = ''limited'', last_checked = 0,
              host_names = [''seeker-functions.azurewebsites.net''],
              report_functions = None, metrics = None,
              report_error = Some ''No such file or directory'' \<rparr>"
proof -
  have c: "utcnow crash_env 5 = 2500" and u: "utcnow unreadable_env 0 = 0"
    by (simp_all add: crash_env_def unreadable_env_def)
  from main_fault_report [of crash_env example_req] example_req_method crash_main_try
  have 1: "http_status_code (main crash_env example_req) = 200"
    and 2: "body (main crash_env example_req) =
       Some \<lparr> state = ''error'', availability = ''limited'', last_checked = 2500,
              host_names = [''seeker-functions.azurewebsites.net''],
              report_functions = None, metrics = None, report_error = Some ''boom'' \<rparr>"
    by (simp_all add: c)
  from main_fault_report [of unreadable_env example_req] example_req_method unreadable_main_try
  have 3: "body (main unreadable_env example_req) =
       Some \<lparr> state = ''error'', availability = ''limited'', last_checked = 0,
              host_names = [''seeker-functions.azurewebsites.net''],
              report_functions = None, metrics = None,
              report_error = Some ''No such file or directory'' \<rparr>"
    by (simp add: u)
  from 1 2 3 example_req_method crash_main_try unreadable_main_try
  show ?thesis by (simp only: simp_thms)
qed

text \<open>
  C8. For every environment and every request, on every path, the response carries
  \<open>Access-Control-Allow-Methods: GET, OPTIONS\<close> and
  \<open>Access-Control-Allow-Headers: Content-Type\<close>. It carries
  \<open>Access-Control-Allow-Origin\<close> exactly when the request's \<open>Origin\<close> header is one
  of the two allowed origins, and then with that origin as value.
\<close>

theorem main_cors_headers:
  "headers (main e req) ''Access-Control-Allow-Origin'' =
     (if req_headers req ''Origin'' = Some ''http://localhost:5173''
         \<or> req_headers req ''Origin'' = Some ''https://seeker.cityoftraitors.com''
      then req_headers req ''Origin'' else None)
   \<and> (headers (main e req) ''Access-Control-Allow-Origin'' \<noteq> None \<longleftrightarrow>
        req_headers req ''Origin'' = Some ''http://localhost:5173''
        \<or> req_headers req ''Origin'' = Some ''https://seeker.cityoftraitors.com'')
   \<and> headers (main e req) ''Access-Control-Allow-Methods'' = Some ''GET, OPTIONS''
   \<and> headers (main e req) ''Access-Control-Allow-Headers'' = Some ''Content-Type''"
  using main_headers [of e req] by auto

text \<open>
  C9. On the success path the metrics are four entries in this order: \<open>Total
  Functions Checked\<close> and \<open>Healthy Functions\<close> with integer values, \<open>Average
  Response Time\<close> whose value is an optional minus sign, one or more digits and
  \<open>ms\<close>, and \<open>Health Percentage\<close> whose value is an optional minus sign, one or
  more digits, a point, one digit and \<open>%\<close>.
\<close>

theorem main_metrics:
  assumes "req_method req \<noteq> ''OPTIONS''"
    and "get_function_list e = Inr all_functions"
    and "check_functions e (functions_to_check all_functions) 0 = (Inr function_statuses, t)"
  shows "\<exists>rep sg1 ds1 sg2 ds2 d. body (main e req) = Some rep
           \<and> metrics rep = Some
                [\<lparr> metric_name = ''Total Functions Checked'',
                    metric_value = JInt (int (length (functions_to_check all_functions))) \<rparr>,
                 \<lparr> metric_name = ''Healthy Functions'',
                    metric_value = JInt (int (length (filter (\<lambda>f. status f = ''running'')
                                                       function_statuses))) \<rparr>,
                 \<lparr> metric_name = ''Average Response Time'',
                    metric_value = JStr (sg1 @ ds1 @ ''ms'') \<rparr>,
                 \<lparr> metric_name = ''Health Percentage'',
                    metric_value = JStr (sg2 @ ds2 @ ''.'' @ [d] @ ''%'') \<rparr>]
           \<and> (sg1 = [] \<or> sg1 = ''-'') \<and> ds1 \<noteq> [] \<and> list_all isdigit ds1
           \<and> (sg2 = [] \<or> sg2 = ''-'') \<and> ds2 \<noteq> [] \<and> list_all isdigit ds2 \<and> isdigit d"
proof -
  let ?n = "length (functions_to_check all_functions)"
  let ?avg = "if ?n = 0 then 0
              else fdiv e (fsum e (map elapsed function_statuses)) (of_nat ?n)"
  let ?pct = "if ?n = 0 then 0
              else fmul e (fdiv e (of_nat (length (filter (\<lambda>f. status f = ''running'')
                                                     function_statuses))) (of_nat ?n)) 100"
  obtain sg1 ds1 where a: "format_f 0 ?avg = sg1 @ ds1" "sg1 = [] \<or> sg1 = ''-''"
      "ds1 \<noteq> []" "list_all isdigit ds1"
    using format_f_0_shape [of ?avg] by blast
  obtain sg2 ds2 d where p: "format_f 1 ?pct = sg2 @ ds2 @ ''.'' @ [d]" "sg2 = [] \<or> sg2 = ''-''"
      "ds2 \<noteq> []" "list_all isdigit ds2" "isdigit d"
    using format_f_1_shape [of ?pct] by blast
  obtain rep where b: "body (main e req) = Some rep"
    and m: "metrics rep = Some
                [\<lparr> metric_name = ''Total Functions Checked'',
                    metric_value = JInt (int ?n) \<rparr>,
                 \<lparr> metric_name = ''Healthy Functions'',
                    metric_value = JInt (int (length (filter (\<lambda>f. status f = ''running'')
                                                       function_statuses))) \<rparr>,
                 \<lparr> metric_name = ''Average Response Time'',
                    metric_value = JStr (format_f 0 ?avg @ ''ms'') \<rparr>,
                 \<lparr> metric_name = ''Health Percentage'',
                    metric_value = JStr (format_f 1 ?pct @ ''%'') \<rparr>]"
    using main_body_success [OF assms(1) main_try_success [OF assms(2,3)]] by simp
  show ?thesis
    using b m a p
    by (intro exI [of _ rep] exI [of _ sg1] exI [of _ ds1] exI [of _ sg2] exI [of _ ds2]
          exI [of _ d]) simp
qed

theorem main_metrics_witness:
  "req_method example_req \<noteq> ''OPTIONS''
   \<and> get_function_list example_env = Inr [''getusertable'', ''callback'', ''tests'', ''login'']
   \<and> (\<exists>rep v3 v4. body (main example_env example_req) = Some rep
          \<and> metrics rep = Some
                [\<lparr> metric_name = ''Total Functions Checked'', metric_value = JInt 3 \<rparr>,
                 \<lparr> metric_name = ''Healthy Functions'', metric_value = JInt 1 \<rparr>,
                 \<lparr> metric_name = ''Average Response Time'', metric_value = v3 \<rparr>,
                 \<lparr> metric_name = ''Health Percentage'', metric_value = v4 \<rparr>])"
proof -
  from main_metrics [OF example_req_method example_get_function_list
        example_check_functions_to_check]
  have "\<exists>rep v3 v4. body (main example_env example_req) = Some rep
          \<and> metrics rep = Some
                [\<lparr> metric_name = ''Total Functions Checked'', metric_value = JInt 3 \<rparr>,
                 \<lparr> metric_name = ''Healthy Functions'', metric_value = JInt 1 \<rparr>,
                 \<lparr> metric_name = ''Average Response Time'', metric_value = v3 \<rparr>,
                 \<lparr> metric_name = ''Health Percentage'', metric_value = v4 \<rparr>]"
    by (auto simp add: example_functions_to_check)
  with example_req_method example_get_function_list show ?thesis by (simp only: simp_thms)
qed

end
